theory Spec2Isabelle
  imports Complex_Main
begin

section \<open>AdvancedNoisePatterns: a shallow embedding\<close>

text \<open>
  The module \<^verbatim>\<open>AdvancedNoisePatterns.py\<close> builds five families of two-dimensional
  noise fields and packs them, one frame per timestamp, into a batch of four-channel
  tensors. The embedding below follows the source function by function.

  Conventions of the model:
  \<^item> a Python or torch floating-point number is a real number; rounding, overflow and
    signed zeros are outside the model. The one non-finite value the program can create
    from real inputs, the \<open>0/0\<close> of the min-max normalisation, is the explicit value
    \<open>NaN\<close> of the type \<open>tval\<close>;
  \<^item> a two-dimensional tensor is a list of rows, a four-dimensional one a list of frames,
    each a list of channels;
  \<^item> every exception of Python or torch is a value of the type \<open>error\<close>, returned as
    \<open>Inl\<close>;
  \<^item> the global random generator of torch, read by \<^verbatim>\<open>torch.rand\<close>, is an explicit
    state: an infinite sequence of the numbers still to be drawn;
  \<^item> the dictionary \<^verbatim>\<open>noise_params\<close> is a map, and the mapping the caller holds after
    the call is returned beside the result.
\<close>

subsection \<open>Values, errors and tensors\<close>

type_synonym field = "real list list"

datatype tval = Fin real | NaN

type_synonym tfield = "tval list list"

type_synonym batch = "tval list list list list"

datatype error =
    ZeroDivisionError
  | NonRealPower
  | KeyError
  | AttributeError
  | UnboundLocalError
  | IndexError
  | RuntimeError

type_synonym rng = "nat \<Rightarrow> real"

datatype pval = PList "real list" | PDict "string \<rightharpoonup> real"

type_synonym params = "string \<rightharpoonup> pval"

text \<open>Elementwise operations on tensors of one shape.\<close>

definition tmap :: "('a \<Rightarrow> 'b) \<Rightarrow> 'a list list \<Rightarrow> 'b list list" where
  "tmap f a = map (map f) a"

definition tzip :: "('a \<Rightarrow> 'b \<Rightarrow> 'c) \<Rightarrow> 'a list list \<Rightarrow> 'b list list \<Rightarrow> 'c list list" where
  "tzip f a b = map2 (\<lambda>r s. map2 f r s) a b"

text \<open>\<^verbatim>\<open>torch.zeros(shape)\<close> for a two-dimensional shape.\<close>

definition zeros2 :: "nat \<times> nat \<Rightarrow> field" where
  "zeros2 shape = replicate (fst shape) (replicate (snd shape) 0)"

text \<open>\<^verbatim>\<open>torch.zeros((b, c, h, w))\<close>.\<close>

definition zeros4 :: "nat \<Rightarrow> nat \<Rightarrow> nat \<Rightarrow> nat \<Rightarrow> batch" where
  "zeros4 b c h w = replicate b (replicate c (replicate h (replicate w (Fin 0))))"

text \<open>
  \<^verbatim>\<open>torch.linspace(start, stop, steps)\<close>: \<open>steps\<close> points from \<open>start\<close> to \<open>stop\<close>,
  both included; a single step is \<open>start\<close> alone.
\<close>

definition linspace :: "real \<Rightarrow> real \<Rightarrow> nat \<Rightarrow> real list" where
  "linspace start stop steps =
     (if steps = 1 then [start]
      else map (\<lambda>i. start + real i * ((stop - start) / real (steps - 1))) [0..<steps])"

text \<open>
  \<^verbatim>\<open>torch.meshgrid(a, b)\<close> with the default \<^verbatim>\<open>ij\<close> indexing: two tensors of shape
  \<open>(len a, len b)\<close>, the first constant along each row, the second along each column.
\<close>

definition meshgrid :: "real list \<Rightarrow> real list \<Rightarrow> field \<times> field" where
  "meshgrid a b = (map (\<lambda>x. map (\<lambda>_. x) b) a, map (\<lambda>_. b) a)"

definition sigmoid :: "real \<Rightarrow> real" where
  "sigmoid x = 1 / (1 + exp (- x))"

text \<open>Python's \<^verbatim>\<open>int(x)\<close> on a float: truncation towards zero.\<close>

definition py_int :: "real \<Rightarrow> int" where
  "py_int x = (if 0 \<le> x then \<lfloor>x\<rfloor> else \<lceil>x\<rceil>)"

text \<open>\<^verbatim>\<open>t.min()\<close> and \<^verbatim>\<open>t.max()\<close> over all elements of a non-empty tensor.\<close>

definition tmin :: "field \<Rightarrow> real" where
  "tmin f = fold min (tl (concat f)) (hd (concat f))"

definition tmax :: "field \<Rightarrow> real" where
  "tmax f = fold max (tl (concat f)) (hd (concat f))"

subsection \<open>The generators\<close>

text \<open>\<^verbatim>\<open>generate_simplex(self, shape, freq)\<close>.\<close>

definition generate_simplex :: "nat \<times> nat \<Rightarrow> real \<Rightarrow> field" where
  "generate_simplex shape freq =
     (let coords = meshgrid (linspace (- pi) pi (fst shape)) (linspace (- pi) pi (snd shape))
      in tzip (\<lambda>c0 c1. tanh (sin (c0 * freq) * cos (c1 * freq * 1.5))
                       * sigmoid (cos (c0 * freq * 0.7) * sin (c1 * freq * 2)))
              (fst coords) (snd coords))"

text \<open>
  \<^verbatim>\<open>torch.rand(n, 2)\<close>: \<open>n\<close> rows of two numbers, drawn from the generator state in
  row-major order; the state moves on by \<open>2 * n\<close> draws.
\<close>

definition torch_rand2 :: "nat \<Rightarrow> rng \<Rightarrow> (real \<times> real) list \<times> rng" where
  "torch_rand2 n g = (map (\<lambda>k. (g (2 * k), g (2 * k + 1))) [0..<n], \<lambda>k. g (k + 2 * n))"

text \<open>\<^verbatim>\<open>t.reshape(shape)\<close> of a flat tensor into rows of length \<open>snd shape\<close>.\<close>

definition reshape2 :: "nat \<times> nat \<Rightarrow> 'a list \<Rightarrow> 'a list list" where
  "reshape2 shape xs = map (\<lambda>i. take (snd shape) (drop (i * snd shape) xs)) [0..<fst shape]"

text \<open>
  The distance matrix of one seed set: for every flattened cell, the distances to all
  seed points (lines 35-37 and 40-42 of the source, with the seed coordinates scaled by
  \<open>sx\<close> and \<open>sy\<close>).
\<close>

definition seed_distances ::
  "real list \<Rightarrow> real list \<Rightarrow> (real \<times> real) list \<Rightarrow> real \<Rightarrow> real \<Rightarrow> real list list" where
  "seed_distances xf yf points sx sy =
     map2 (\<lambda>xv yv. map (\<lambda>p. sqrt ((xv - fst p * sx)\<^sup>2 + (yv - snd p * sy)\<^sup>2)) points) xf yf"

text \<open>
  Line 31, \<^verbatim>\<open>torch.rand(numPoints, 2) * torch.tensor(shape) * chaos_factor\<close>: each row
  of random numbers scaled by the shape and by the chaos factor.
\<close>

definition place_seeds :: "nat \<times> nat \<Rightarrow> real \<Rightarrow> (real \<times> real) list \<Rightarrow> (real \<times> real) list" where
  "place_seeds shape chaos_factor r =
     map (\<lambda>p. (fst p * real (fst shape) * chaos_factor,
                snd p * real (snd shape) * chaos_factor)) r"

text \<open>
  \<^verbatim>\<open>generate_cellular(self, shape, numPoints, chaos_factor)\<close>. \<^verbatim>\<open>torch.rand\<close> refuses a
  negative size with a \<^verbatim>\<open>RuntimeError\<close>, and \<^verbatim>\<open>torch.min(..., dim=1)\<close> refuses a
  reduction over no seed point with an \<^verbatim>\<open>IndexError\<close>.
\<close>

definition generate_cellular ::
  "nat \<times> nat \<Rightarrow> int \<Rightarrow> real \<Rightarrow> rng \<Rightarrow> error + (field \<times> rng)" where
  "generate_cellular shape numPoints chaos_factor g =
     (if numPoints < 0 then Inl RuntimeError
      else
        let (r, g') = torch_rand2 (nat numPoints) g;
            points = place_seeds shape chaos_factor r;
            x = map (\<lambda>i. replicate (snd shape) (real i)) [0..<fst shape];
            y = replicate (fst shape) (map real [0..<snd shape])
        in if points = [] then Inl IndexError
           else
             let distances1 = reshape2 shape
                   (map (\<lambda>ds. fold min (tl ds) (hd ds))
                        (seed_distances (concat x) (concat y) points 1 1));
                 distances2 = reshape2 shape
                   (map (\<lambda>ds. fold min (tl ds) (hd ds))
                        (seed_distances (concat x) (concat y) points 1.5 0.8))
             in Inr (tzip (\<lambda>d1 d2. sin (d1 * 0.2) * cos (d2 * 0.15)) distances1 distances2, g'))"

text \<open>
  \<^verbatim>\<open>generate_fbm(self, shape, octaves, persistence, lacunarity, chaos)\<close>. The loop over
  \<^verbatim>\<open>range(octaves)\<close> carries the triple \<open>(noise, amplitude, frequency)\<close>.
\<close>

fun fbm_loop ::
  "nat \<Rightarrow> nat \<times> nat \<Rightarrow> real \<Rightarrow> real \<Rightarrow> real \<Rightarrow> field \<times> real \<times> real \<Rightarrow> field \<times> real \<times> real" where
  "fbm_loop 0 shape persistence lacunarity chaos st = st"
| "fbm_loop (Suc n) shape persistence lacunarity chaos (noise, amplitude, frequency) =
     fbm_loop n shape persistence lacunarity chaos
       (tzip (+) noise (tmap (\<lambda>v. amplitude * v) (generate_simplex shape (frequency * chaos))),
        amplitude * (persistence * (1 + chaos * 0.2)),
        frequency * (lacunarity * (1 + chaos * 0.1)))"

definition generate_fbm :: "nat \<times> nat \<Rightarrow> int \<Rightarrow> real \<Rightarrow> real \<Rightarrow> real \<Rightarrow> field" where
  "generate_fbm shape octaves persistence lacunarity chaos =
     tmap tanh (fst (fbm_loop (nat octaves) shape persistence lacunarity chaos
                       (zeros2 shape, 1, 1)))"

text \<open>\<^verbatim>\<open>generate_wave(self, shape, frequency, phases)\<close>.\<close>

definition generate_wave :: "nat \<times> nat \<Rightarrow> real \<Rightarrow> real \<times> real \<Rightarrow> field" where
  "generate_wave shape frequency phases =
     (let x = linspace (- pi) pi (snd shape);
          y = linspace (- pi) pi (fst shape);
          (xx, yy) = meshgrid x y
      in tzip (\<lambda>xv yv.
                 (sin (xv * frequency + fst phases) * cos (yv * frequency * 1.3 + snd phases)
                  + cos (xv * frequency * 0.7 + snd phases)
                    * sin (yv * frequency * 1.7 + fst phases)
                  + sin ((xv + yv) * frequency * 0.5) * cos ((xv - yv) * frequency * 0.8)) / 3)
              xx yy)"

text \<open>
  \<^verbatim>\<open>torch.nn.functional.grid_sample\<close> is a library primitive, not code of the repository.
  It is modelled from its documentation for the call made here: one image of one channel,
  bilinear interpolation, zero padding, \<^verbatim>\<open>align_corners=False\<close>. The output has the
  shape of the sampling grid; each entry of the grid is a pair \<open>(x, y)\<close> in normalised
  coordinates, \<open>x\<close> along the width of the input and \<open>y\<close> along its height.
\<close>

definition pixel :: "field \<Rightarrow> int \<Rightarrow> int \<Rightarrow> real" where
  "pixel inp iy ix =
     (if 0 \<le> iy \<and> iy < int (length inp) \<and> 0 \<le> ix \<and> ix < int (length (hd inp))
      then inp ! nat iy ! nat ix else 0)"

definition bilinear :: "field \<Rightarrow> real \<times> real \<Rightarrow> real" where
  "bilinear inp p =
     (let h = length inp;
          w = (if inp = [] then 0 else length (hd inp));
          ix = ((fst p + 1) * real w - 1) / 2;
          iy = ((snd p + 1) * real h - 1) / 2;
          x0 = \<lfloor>ix\<rfloor>; y0 = \<lfloor>iy\<rfloor>;
          x1 = x0 + 1; y1 = y0 + 1
      in (if inp = [] then 0
          else pixel inp y0 x0 * (real_of_int x1 - ix) * (real_of_int y1 - iy)
             + pixel inp y0 x1 * (ix - real_of_int x0) * (real_of_int y1 - iy)
             + pixel inp y1 x0 * (real_of_int x1 - ix) * (iy - real_of_int y0)
             + pixel inp y1 x1 * (ix - real_of_int x0) * (iy - real_of_int y0)))"

definition grid_sample :: "field \<Rightarrow> (real \<times> real) list list \<Rightarrow> field" where
  "grid_sample inp grid = tmap (bilinear inp) grid"

text \<open>
  \<^verbatim>\<open>domain_warp(self, noise, warp_factor, timestamp)\<close>. \<^verbatim>\<open>noise.shape\<close> is read off the
  list of rows; for a tensor without rows the width is taken as 0.
\<close>

definition domain_warp :: "field \<Rightarrow> real \<Rightarrow> real \<Rightarrow> field" where
  "domain_warp noise warp_factor timestamp =
     (let height = length noise;
          width = (if noise = [] then 0 else length (hd noise));
          (grid_x, grid_y) = meshgrid (linspace (- 1) 1 width) (linspace (- 1) 1 height);
          warp = tzip (\<lambda>gx gy.
                   (gx + warp_factor * sin (6 * pi * timestamp + gy * 2) * cos (gx * 3),
                    gy + warp_factor * cos (6 * pi * timestamp + gx * 2) * sin (gy * 3)))
                   grid_x grid_y;
          warped = grid_sample noise warp
      in tmap (\<lambda>v. tanh (v * 2)) warped)"

subsection \<open>The schedule, the normalisation and the channels\<close>

text \<open>
  Lines 122-124: the schedule of one timestamp. Python raises \<^verbatim>\<open>ZeroDivisionError\<close> on a
  division of floats by zero. A negative ratio raised to the power \<open>0.3\<close> is not a real
  number (Python answers with a complex one); the model stops there with
  \<open>NonRealPower\<close> and does not follow the complex arithmetic.
\<close>

definition schedule :: "real \<Rightarrow> real \<Rightarrow> real \<Rightarrow> error + (real \<times> real \<times> real)" where
  "schedule timestamp last_timestamp intensity =
     (if last_timestamp = 0 then Inl ZeroDivisionError
      else if timestamp / last_timestamp < 0 then Inl NonRealPower
      else
        let time_scale = (timestamp / last_timestamp) powr 0.3;
            energy_factor = intensity * (1 + exp (time_scale * 2) - 1);
            chaos = 0.5 + \<bar>sin (timestamp * 10)\<bar> * 2
        in Inr (time_scale, energy_factor, chaos))"

text \<open>
  Lines 126-149: the choice of the generator. The variable \<^verbatim>\<open>persistence\<close> of the caller
  is passed through and overwritten in the \<^verbatim>\<open>fbm\<close> branch; a noise type outside the five
  leaves \<^verbatim>\<open>base_noise\<close> unbound, which line 151 reports.
\<close>

definition dispatch ::
  "string \<Rightarrow> nat \<times> nat \<Rightarrow> real \<Rightarrow> real \<Rightarrow> real \<Rightarrow> real \<Rightarrow> rng
     \<Rightarrow> error + (field \<times> real \<times> rng)" where
  "dispatch noise_type shape energy_factor chaos timestamp persistence g =
     (if noise_type = ''simplex'' then
        (let freq = 1 + energy_factor * 30
         in Inr (generate_simplex shape freq, persistence, g))
      else if noise_type = ''cellular'' then
        (let points = py_int (3 + energy_factor * 150)
         in case generate_cellular shape points chaos g of
              Inl e \<Rightarrow> Inl e
            | Inr r \<Rightarrow> Inr (fst r, persistence, snd r))
      else if noise_type = ''fbm'' then
        (let octaves = py_int (2 + energy_factor * 6);
             persistence' = 0.2 + energy_factor * 0.8;
             lacunarity = 1.2 + energy_factor * 4
         in Inr (generate_fbm shape octaves persistence' lacunarity chaos, persistence', g))
      else if noise_type = ''wave'' then
        (let freq = 0.3 + energy_factor * 12;
             phase_x = timestamp * 8 * pi * chaos;
             phase_y = timestamp * 6 * pi * (2 - chaos)
         in Inr (generate_wave shape freq (phase_x, phase_y), persistence, g))
      else if noise_type = ''domain_warp'' then
        (let base_noise = generate_simplex shape (2 * chaos);
             warp_factor = 0.1 + energy_factor * 1.2
         in Inr (domain_warp base_noise warp_factor timestamp, persistence, g))
      else Inl UnboundLocalError)"

text \<open>
  The division of torch on tensors: a zero denominator gives no exception. In line 151
  the numerator is 0 whenever the denominator is, so the quotient is NaN there.
\<close>

definition fdiv :: "real \<Rightarrow> real \<Rightarrow> tval" where
  "fdiv a b = (if b = 0 then NaN else Fin (a / b))"

text \<open>Line 151. \<^verbatim>\<open>min()\<close> of a tensor without elements is a \<^verbatim>\<open>RuntimeError\<close>.\<close>

definition minmax_normalize :: "field \<Rightarrow> error + tfield" where
  "minmax_normalize base_noise =
     (if concat base_noise = [] then Inl RuntimeError
      else Inr (tmap (\<lambda>v. fdiv (v - tmin base_noise) (tmax base_noise - tmin base_noise))
                  base_noise))"

text \<open>A function of torch applied to an element: NaN stays NaN.\<close>

fun tlift :: "(real \<Rightarrow> real) \<Rightarrow> tval \<Rightarrow> tval" where
  "tlift f (Fin v) = Fin (f v)"
| "tlift f NaN = NaN"

text \<open>
  The assignment \<^verbatim>\<open>noise_batch[i, c] = v\<close> broadcasts \<open>v\<close> to the shape of the slot: an
  axis of \<open>v\<close> must have the length of the slot's axis or length 1, otherwise torch
  raises a \<^verbatim>\<open>RuntimeError\<close>; an axis of length 1 is repeated along the slot's axis. A
  tensor is rectangular, so the length of its second axis is read off its first row.
\<close>

definition broadcastable :: "nat \<times> nat \<Rightarrow> 'a list list \<Rightarrow> bool" where
  "broadcastable shape v =
     (let a = length v; b = (if v = [] then 0 else length (hd v))
      in (a = fst shape \<or> a = 1) \<and> (b = snd shape \<or> b = 1))"

definition expand :: "nat \<times> nat \<Rightarrow> 'a list list \<Rightarrow> 'a list list" where
  "expand shape v =
     map (\<lambda>r. if length r = snd shape then r else replicate (snd shape) (hd r))
         (if length v = fst shape then v else replicate (fst shape) (hd v))"

definition broadcast_to :: "nat \<times> nat \<Rightarrow> 'a list list \<Rightarrow> error + 'a list list" where
  "broadcast_to shape v =
     (if broadcastable shape v then Inr (expand shape v) else Inl RuntimeError)"

text \<open>
  Lines 154-156: the tensor assigned to channel \<open>c\<close>. The phase, the sine scaled by the
  energy factor, then the hyperbolic tangent.
\<close>

definition channel_of :: "real \<Rightarrow> real \<Rightarrow> nat \<Rightarrow> tfield \<Rightarrow> tfield" where
  "channel_of energy_factor chaos c base_noise =
     (let channel_phase = real c * pi / 2 * chaos;
          channel_noise =
            tmap (tlift (\<lambda>v. sin (v * (8 + channel_phase)) * energy_factor)) base_noise
      in tmap (tlift (\<lambda>v. tanh (v * 2))) channel_noise)"

text \<open>Lines 153-156: the loop over the channels \<^verbatim>\<open>range(4)\<close> of frame \<open>i\<close>.\<close>

fun channel_loop ::
  "nat list \<Rightarrow> nat \<times> nat \<Rightarrow> tfield \<Rightarrow> real \<Rightarrow> real \<Rightarrow> nat \<Rightarrow> batch \<Rightarrow> error + batch" where
  "channel_loop [] shape base_noise energy_factor chaos i noise_batch = Inr noise_batch"
| "channel_loop (c # cs) shape base_noise energy_factor chaos i noise_batch =
     (case broadcast_to shape (channel_of energy_factor chaos c base_noise) of
        Inl e \<Rightarrow> Inl e
      | Inr slot \<Rightarrow>
          channel_loop cs shape base_noise energy_factor chaos i
            (noise_batch[i := (noise_batch ! i)[c := slot]]))"

subsection \<open>The loop over the timestamps\<close>

record lstate =
  st_batch :: batch
  st_persistence :: real
  st_gen :: rng

text \<open>Lines 122-156: one iteration of the loop, for the pair \<open>(i, timestamp)\<close>.\<close>

definition loop_body ::
  "string \<Rightarrow> nat \<times> nat \<Rightarrow> real \<Rightarrow> real \<Rightarrow> nat \<Rightarrow> real \<Rightarrow> lstate \<Rightarrow> error + lstate" where
  "loop_body noise_type shape last_timestamp intensity i timestamp st =
     (case schedule timestamp last_timestamp intensity of
        Inl e \<Rightarrow> Inl e
      | Inr (time_scale, energy_factor, chaos) \<Rightarrow>
          (case dispatch noise_type shape energy_factor chaos timestamp
                  (st_persistence st) (st_gen st) of
             Inl e \<Rightarrow> Inl e
           | Inr (base_noise, persistence', g') \<Rightarrow>
               (case minmax_normalize base_noise of
                  Inl e \<Rightarrow> Inl e
                | Inr normalized \<Rightarrow>
                    (case channel_loop [0..<4] shape normalized energy_factor chaos i
                            (st_batch st) of
                       Inl e \<Rightarrow> Inl e
                     | Inr nb \<Rightarrow>
                         Inr \<lparr>st_batch = nb, st_persistence = persistence', st_gen = g'\<rparr>))))"

text \<open>Line 121: \<^verbatim>\<open>for i, timestamp in enumerate(timestamps)\<close>.\<close>

fun frames_loop ::
  "(nat \<times> real) list \<Rightarrow> string \<Rightarrow> nat \<times> nat \<Rightarrow> real \<Rightarrow> real \<Rightarrow> lstate \<Rightarrow> error + lstate" where
  "frames_loop [] noise_type shape last_timestamp intensity st = Inr st"
| "frames_loop (p # ps) noise_type shape last_timestamp intensity st =
     (case loop_body noise_type shape last_timestamp intensity (fst p) (snd p) st of
        Inl e \<Rightarrow> Inl e
      | Inr st' \<Rightarrow> frames_loop ps noise_type shape last_timestamp intensity st')"

subsection \<open>The entry point\<close>

definition default_noise_params :: params where
  "default_noise_params =
     [''timestamps'' \<mapsto> PList [0, 0.5, 1],
      ''simplex'' \<mapsto> PDict [''intensity'' \<mapsto> 1],
      ''cellular'' \<mapsto> PDict [''intensity'' \<mapsto> 1],
      ''fbm'' \<mapsto> PDict [''intensity'' \<mapsto> 1, ''persistence'' \<mapsto> 0.5],
      ''wave'' \<mapsto> PDict [''intensity'' \<mapsto> 1],
      ''domain_warp'' \<mapsto> PDict [''intensity'' \<mapsto> 1]]"

definition default_keys :: "string list" where
  "default_keys = [''timestamps'', ''simplex'', ''cellular'', ''fbm'', ''wave'', ''domain_warp'']"

text \<open>
  Lines 102-107. The first component is the mapping the caller holds after the call, the
  second the value of the local variable \<^verbatim>\<open>noise_params\<close>. An empty mapping is false in
  Python, and the local variable is then bound to the defaults; otherwise the loop writes
  the missing keys into the caller's own mapping.
\<close>

definition merge_defaults :: "params \<Rightarrow> params \<times> params" where
  "merge_defaults noise_params =
     (if noise_params = Map.empty then (noise_params, default_noise_params)
      else
        let merged = fold (\<lambda>key m. if m key = None then m(key := default_noise_params key) else m)
                       default_keys noise_params
        in (merged, merged))"

text \<open>\<^verbatim>\<open>d.get(key, fallback)\<close> of a dictionary.\<close>

definition dict_get :: "(string \<rightharpoonup> real) \<Rightarrow> string \<Rightarrow> real \<Rightarrow> real" where
  "dict_get d key fallback = (case d key of None \<Rightarrow> fallback | Some v \<Rightarrow> v)"

text \<open>Lines 113-158, for a non-empty list of timestamps.\<close>

definition run_frames ::
  "params \<Rightarrow> real list \<Rightarrow> nat \<Rightarrow> nat \<Rightarrow> string \<Rightarrow> rng
     \<Rightarrow> error + ((batch \<times> real list) \<times> rng)" where
  "run_frames noise_params timestamps width height noise_type g =
     (let batch_size = length timestamps;
          latent_height = height div 8;
          latent_width = width div 8;
          noise_batch = zeros4 batch_size 4 latent_height latent_width
      in case noise_params noise_type of
           None \<Rightarrow> Inl KeyError
         | Some (PList l) \<Rightarrow> Inl AttributeError
         | Some (PDict base_params) \<Rightarrow>
             (let intensity = dict_get base_params ''intensity'' 1;
                  persistence = dict_get base_params ''persistence'' 0.5
              in case frames_loop (zip [0..<batch_size] timestamps) noise_type
                        (latent_height, latent_width) (last timestamps) intensity
                        \<lparr>st_batch = noise_batch, st_persistence = persistence, st_gen = g\<rparr> of
                   Inl e \<Rightarrow> Inl e
                 | Inr st \<Rightarrow> Inr ((st_batch st, timestamps), st_gen st)))"

text \<open>
  \<^verbatim>\<open>generate_advanced_noise(self, noise_params, width, height, noise_type, analysis_type)\<close>.
  The width and the height are the non-negative integers that \<^verbatim>\<open>INPUT_TYPES\<close> declares.
  The result is the mapping of the caller after the call, and the value returned or the
  exception raised, together with the state of the random generator. An entry
  \<^verbatim>\<open>timestamps\<close> that is a dictionary has a length too: an empty one takes the early
  return, and a non-empty one fails at \<^verbatim>\<open>timestamps[-1]\<close> once the parameters of the
  noise type have been read.
\<close>

definition generate_advanced_noise ::
  "params \<Rightarrow> nat \<Rightarrow> nat \<Rightarrow> string \<Rightarrow> string \<Rightarrow> rng
     \<Rightarrow> params \<times> (error + ((batch \<times> real list) \<times> rng))" where
  "generate_advanced_noise noise_params width height noise_type analysis_type g =
     (let (caller, merged) = merge_defaults noise_params
      in (caller,
          case merged ''timestamps'' of
            None \<Rightarrow> Inl KeyError
          | Some (PList timestamps) \<Rightarrow>
              if length timestamps = 0
              then Inr ((zeros4 1 4 (height div 8) (width div 8), [0]), g)
              else run_frames merged timestamps width height noise_type g
          | Some (PDict d) \<Rightarrow>
              if d = Map.empty
              then Inr ((zeros4 1 4 (height div 8) (width div 8), [0]), g)
              else (case merged noise_type of
                      None \<Rightarrow> Inl KeyError
                    | Some (PList l) \<Rightarrow> Inl AttributeError
                    | Some (PDict base_params) \<Rightarrow> Inl KeyError)))"

subsection \<open>Observations\<close>

text \<open>
  What a caller can see of the loop once it has ended: the batch and the state of the
  random generator, or the exception. The local variable \<^verbatim>\<open>persistence\<close> is not
  returned.
\<close>

definition visible :: "error + lstate \<Rightarrow> error + (batch \<times> rng)" where
  "visible r = map_sum (\<lambda>e. e) (\<lambda>st. (st_batch st, st_gen st)) r"


subsection \<open>The cellular generator in the words of the specification\<close>

text \<open>
  The distance from the cell \<open>(x, y)\<close> to the nearest of the seeds, the coordinates of the
  seeds scaled by \<open>sx\<close> and \<open>sy\<close>.
\<close>

definition nearest :: "(real \<times> real) list \<Rightarrow> real \<Rightarrow> real \<Rightarrow> real \<Rightarrow> real \<Rightarrow> real" where
  "nearest seeds sx sy x y =
     Min ((\<lambda>p. sqrt ((x - fst p * sx)\<^sup>2 + (y - snd p * sy)\<^sup>2)) ` set seeds)"

text \<open>
  The field that the specification describes, written from its words and not from the
  source: two independent seed sets, that is two draws of \<open>n\<close> seeds each; the first
  distance field is the distance to the nearest seed of the first set, the second the
  distance to the nearest seed of the second set with its coordinates scaled by
  \<open>(1.5, 0.8)\<close>; the output is \<open>sin (d1 * 0.2) * cos (d2 * 0.15)\<close>.
\<close>

definition cellular_independent_sets :: "nat \<times> nat \<Rightarrow> nat \<Rightarrow> real \<Rightarrow> rng \<Rightarrow> field" where
  "cellular_independent_sets shape n chaos_factor g =
     (let first_draw = torch_rand2 n g;
          second_draw = torch_rand2 n (snd first_draw);
          seeds1 = place_seeds shape chaos_factor (fst first_draw);
          seeds2 = place_seeds shape chaos_factor (fst second_draw)
      in map (\<lambda>i. map (\<lambda>j. sin (nearest seeds1 1 1 (real i) (real j) * 0.2)
                             * cos (nearest seeds2 1.5 0.8 (real i) (real j) * 0.15))
                        [0..<snd shape])
             [0..<fst shape])"

text \<open>A generator state for the examples: the first two draws are 1/2, all later ones 0.\<close>

definition half_then_zero :: rng where
  "half_then_zero k = (if k < 2 then 1 / 2 else 0)"


section \<open>Properties\<close>

subsection \<open>Grids and shapes\<close>

lemma length_linspace: "length (linspace a b n) = n"
  by (simp add: linspace_def)

lemma map2_const_left: "map2 f (map (\<lambda>_. x) b) b = map (f x) b"
  by (induction b) simp_all

lemma tzip_meshgrid:
  "tzip f (fst (meshgrid a b)) (snd (meshgrid a b)) = map (\<lambda>x. map (f x) b) a"
  by (induction a) (simp_all add: tzip_def meshgrid_def map2_const_left)

lemma generate_simplex_grid:
  "generate_simplex shape freq =
     map (\<lambda>c0. map (\<lambda>c1. tanh (sin (c0 * freq) * cos (c1 * freq * 1.5))
                       * sigmoid (cos (c0 * freq * 0.7) * sin (c1 * freq * 2)))
                  (linspace (- pi) pi (snd shape)))
         (linspace (- pi) pi (fst shape))"
  by (simp add: generate_simplex_def Let_def tzip_meshgrid)

lemma generate_wave_grid:
  "generate_wave shape frequency phases =
     map (\<lambda>xv. map (\<lambda>yv.
                 (sin (xv * frequency + fst phases) * cos (yv * frequency * 1.3 + snd phases)
                  + cos (xv * frequency * 0.7 + snd phases)
                    * sin (yv * frequency * 1.7 + fst phases)
                  + sin ((xv + yv) * frequency * 0.5) * cos ((xv - yv) * frequency * 0.8)) / 3)
               (linspace (- pi) pi (fst shape)))
         (linspace (- pi) pi (snd shape))"
  by (simp add: generate_wave_def Let_def split_beta tzip_meshgrid)

lemma domain_warp_grid:
  "domain_warp noise warp_factor timestamp =
     map (\<lambda>gx. map (\<lambda>gy. tanh (bilinear noise
                 (gx + warp_factor * sin (6 * pi * timestamp + gy * 2) * cos (gx * 3),
                  gy + warp_factor * cos (6 * pi * timestamp + gx * 2) * sin (gy * 3)) * 2))
               (linspace (- 1) 1 (length noise)))
         (linspace (- 1) 1 (if noise = [] then 0 else length (hd noise)))"
  by (simp add: domain_warp_def Let_def split_beta grid_sample_def tmap_def comp_def
        tzip_meshgrid split del: if_split)

lemma shape_generate_simplex:
  "map length (generate_simplex shape freq) = replicate (fst shape) (snd shape)"
  by (simp add: generate_simplex_grid length_linspace map_replicate_const comp_def)

lemma shape_generate_wave:
  "map length (generate_wave shape frequency phases) = replicate (snd shape) (fst shape)"
  by (simp add: generate_wave_grid length_linspace map_replicate_const comp_def)

lemma shape_domain_warp:
  "map length (domain_warp noise warp_factor timestamp)
     = replicate (if noise = [] then 0 else length (hd noise)) (length noise)"
  by (simp add: domain_warp_grid length_linspace map_replicate_const comp_def)

subsection \<open>The merging of the defaults\<close>

lemma fold_merge:
  "fold (\<lambda>key m. if m key = None then m(key := d key) else m) ks m
     = (\<lambda>k. if k \<in> set ks \<and> m k = None then d k else m k)"
proof (induction ks arbitrary: m)
  case Nil
  then show ?case by simp
next
  case (Cons a ks)
  show ?case by (auto simp: Cons.IH fun_eq_iff)
qed

lemma merge_defaults_nonempty:
  "noise_params \<noteq> Map.empty \<Longrightarrow>
     merge_defaults noise_params =
       (\<lambda>k. if k \<in> set default_keys \<and> noise_params k = None then default_noise_params k
             else noise_params k,
        \<lambda>k. if k \<in> set default_keys \<and> noise_params k = None then default_noise_params k
             else noise_params k)"
  by (simp add: merge_defaults_def fold_merge Let_def)

lemma default_keys_defined: "k \<in> set default_keys \<Longrightarrow> default_noise_params k \<noteq> None"
  by (auto simp: default_keys_def default_noise_params_def)

subsection \<open>The schedule, the shapes, the empty list of timestamps and the defaults\<close>



text \<open>
  C5. The wave generator and the domain warp return the transposed shape: asked for a
  field of 8 rows and 16 columns, \<open>generate_wave\<close> returns 16 rows of 8 columns, and
  \<open>domain_warp\<close> turns a field of 8 rows and 16 columns into one of 16 rows and 8
  columns, while \<open>generate_simplex\<close> returns the 8 rows of 16 columns asked for.
\<close>

theorem wave_shape_transposed:
  "map length (generate_wave (8, 16) 1 (0, 0)) = replicate 16 8
   \<and> map length (generate_simplex (8, 16) 1) = replicate 8 16
   \<and> map length (domain_warp (generate_simplex (8, 16) 1) 1 0) = replicate 16 8"
proof -
  have ne: "generate_simplex (8, 16) 1 \<noteq> []"
    using shape_generate_simplex[of "(8, 16)" 1] by auto
  moreover have "length (generate_simplex (8, 16) 1) = 8"
    using arg_cong[OF shape_generate_simplex[of "(8, 16)" 1], of length] by simp
  moreover have "length (hd (generate_simplex (8, 16) 1)) = 16"
    using arg_cong[OF shape_generate_simplex[of "(8, 16)" 1], of hd] ne
    by (simp add: hd_map)
  ultimately show ?thesis
    by (simp add: shape_generate_wave shape_generate_simplex shape_domain_warp)
qed

text \<open>
  C8. When the entry \<^verbatim>\<open>timestamps\<close> of the parameters is the empty list, the call
  returns, whatever the noise type, one frame of four channels of \<open>height div 8\<close> rows
  and \<open>width div 8\<close> columns, all zero, together with the timestamp list \<open>[0]\<close>; it
  raises nothing and draws no random number.
\<close>

theorem empty_timestamps_zero_batch:
  assumes "noise_params ''timestamps'' = Some (PList [])"
  shows "snd (generate_advanced_noise noise_params width height noise_type analysis_type g) =
     Inr (([replicate 4 (replicate (height div 8) (replicate (width div 8) (Fin 0)))], [0]), g)"
proof -
  have ne: "noise_params \<noteq> Map.empty" using assms by auto
  show ?thesis
    by (simp add: generate_advanced_noise_def merge_defaults_nonempty[OF ne] zeros4_def assms)
qed

theorem empty_timestamps_zero_batch_witness:
  "[''timestamps'' \<mapsto> PList []] ''timestamps'' = Some (PList [])
   \<and> snd (generate_advanced_noise [''timestamps'' \<mapsto> PList []] 512 256 ''wave'' [] (\<lambda>k. 0)) =
     Inr (([replicate 4 (replicate 32 (replicate 64 (Fin 0)))], [0]), \<lambda>k. 0)"
  using empty_timestamps_zero_batch[of "[''timestamps'' \<mapsto> PList []]" 512 256 "''wave''" "[]" "\<lambda>k. 0"]
  by simp

text \<open>
  C10. When the mapping supplied is not empty, the mapping the caller holds after the call
  has every default key that was absent, bound to its default value, has every key the
  caller supplied with the value supplied, and has no other key. This holds whether the
  call then returns or raises.
\<close>

theorem merge_mutates_caller_mapping:
  assumes "noise_params \<noteq> Map.empty"
  shows "(\<forall>k. k \<in> set default_keys \<and> noise_params k = None \<longrightarrow>
            fst (generate_advanced_noise noise_params width height noise_type analysis_type g) k
              = default_noise_params k
            \<and> default_noise_params k \<noteq> None)
       \<and> (\<forall>k. noise_params k \<noteq> None \<longrightarrow>
            fst (generate_advanced_noise noise_params width height noise_type analysis_type g) k
              = noise_params k)
       \<and> (\<forall>k. k \<notin> set default_keys \<and> noise_params k = None \<longrightarrow>
            fst (generate_advanced_noise noise_params width height noise_type analysis_type g) k
              = None)"
  by (simp add: generate_advanced_noise_def merge_defaults_nonempty[OF assms]
        default_keys_defined)

theorem merge_mutates_caller_mapping_witness:
  "[''timestamps'' \<mapsto> PList [1]] \<noteq> Map.empty
   \<and> fst (generate_advanced_noise [''timestamps'' \<mapsto> PList [1]] 64 64 ''simplex'' [] (\<lambda>k. 0))
        ''fbm'' = Some (PDict [''intensity'' \<mapsto> 1, ''persistence'' \<mapsto> 0.5])
   \<and> fst (generate_advanced_noise [''timestamps'' \<mapsto> PList [1]] 64 64 ''simplex'' [] (\<lambda>k. 0))
        ''timestamps'' = Some (PList [1])
   \<and> fst (generate_advanced_noise [''timestamps'' \<mapsto> PList [1]] 64 64 ''simplex'' [] (\<lambda>k. 0))
        ''other'' = None"
proof -
  have ne: "[''timestamps'' \<mapsto> PList [1]] \<noteq> Map.empty" by simp
  show ?thesis
    using merge_mutates_caller_mapping[OF ne, of 64 64 "''simplex''" "[]" "\<lambda>k. 0"]
    by (simp add: default_keys_def default_noise_params_def)
qed

subsection \<open>The persistence read from the parameters\<close>


lemma dispatch_persistence:
  "map_sum (\<lambda>e. e) (\<lambda>r. (fst r, snd (snd r))) (dispatch noise_type shape e c t p1 g)
     = map_sum (\<lambda>e. e) (\<lambda>r. (fst r, snd (snd r))) (dispatch noise_type shape e c t p2 g)"
  by (simp add: dispatch_def Let_def split: sum.splits)

lemma loop_body_persistence:
  assumes "st_batch st1 = st_batch st2" "st_gen st1 = st_gen st2"
  shows "visible (loop_body noise_type shape L intensity i t st1)
           = visible (loop_body noise_type shape L intensity i t st2)"
proof (cases "schedule t L intensity")
  case (Inl e)
  then show ?thesis by (simp add: loop_body_def visible_def)
next
  case (Inr s)
  obtain ts ef ch where s: "s = (ts, ef, ch)" by (cases s) auto
  have d: "map_sum (\<lambda>e. e) (\<lambda>r. (fst r, snd (snd r)))
             (dispatch noise_type shape ef ch t (st_persistence st1) (st_gen st1))
         = map_sum (\<lambda>e. e) (\<lambda>r. (fst r, snd (snd r)))
             (dispatch noise_type shape ef ch t (st_persistence st2) (st_gen st2))"
    using dispatch_persistence assms(2) by simp
  show ?thesis
  proof (cases "dispatch noise_type shape ef ch t (st_persistence st1) (st_gen st1)")
    case (Inl e)
    with d have "dispatch noise_type shape ef ch t (st_persistence st2) (st_gen st2) = Inl e"
      by (cases "dispatch noise_type shape ef ch t (st_persistence st2) (st_gen st2)") auto
    with Inl Inr s show ?thesis by (simp add: loop_body_def visible_def)
  next
    case r1: (Inr r1)
    with d obtain r2 where
      r2: "dispatch noise_type shape ef ch t (st_persistence st2) (st_gen st2) = Inr r2"
      and eq: "fst r1 = fst r2" "snd (snd r1) = snd (snd r2)"
      by (cases "dispatch noise_type shape ef ch t (st_persistence st2) (st_gen st2)") auto
    show ?thesis
      using Inr s r1 r2 eq assms(1)
      by (cases r1; cases r2) (simp add: loop_body_def visible_def split: sum.splits)
  qed
qed

lemma frames_loop_persistence:
  "st_batch st1 = st_batch st2 \<Longrightarrow> st_gen st1 = st_gen st2 \<Longrightarrow>
     visible (frames_loop ps noise_type shape L intensity st1)
       = visible (frames_loop ps noise_type shape L intensity st2)"
proof (induction ps arbitrary: st1 st2)
  case Nil
  then show ?case by (simp add: visible_def)
next
  case (Cons p ps)
  have v: "visible (loop_body noise_type shape L intensity (fst p) (snd p) st1)
         = visible (loop_body noise_type shape L intensity (fst p) (snd p) st2)"
    using Cons.prems by (rule loop_body_persistence)
  show ?case
  proof (cases "loop_body noise_type shape L intensity (fst p) (snd p) st1")
    case (Inl e)
    with v have "loop_body noise_type shape L intensity (fst p) (snd p) st2 = Inl e"
      by (cases "loop_body noise_type shape L intensity (fst p) (snd p) st2")
         (auto simp: visible_def)
    with Inl show ?thesis by (simp add: visible_def)
  next
    case (Inr a)
    with v obtain b where
      b: "loop_body noise_type shape L intensity (fst p) (snd p) st2 = Inr b"
      and "st_batch a = st_batch b" "st_gen a = st_gen b"
      by (cases "loop_body noise_type shape L intensity (fst p) (snd p) st2")
         (auto simp: visible_def)
    then show ?thesis using Inr Cons.IH[of a b] by simp
  qed
qed

lemma run_frames_visible:
  "run_frames np ts w h ty g =
     (case np ty of
        None \<Rightarrow> Inl KeyError
      | Some (PList l) \<Rightarrow> Inl AttributeError
      | Some (PDict bp) \<Rightarrow>
          map_sum (\<lambda>e. e) (\<lambda>r. ((fst r, ts), snd r))
            (visible (frames_loop (zip [0..<length ts] ts) ty (h div 8, w div 8) (last ts)
               (dict_get bp ''intensity'' 1)
               \<lparr>st_batch = zeros4 (length ts) 4 (h div 8) (w div 8),
                 st_persistence = dict_get bp ''persistence'' 0.5,
                 st_gen = g\<rparr>)))"
  by (simp add: run_frames_def Let_def visible_def split: option.splits pval.splits sum.splits)

lemma run_frames_persistence:
  assumes "\<And>k. k \<noteq> ''fbm'' \<Longrightarrow> np1 k = np2 k"
    and "np1 ''fbm'' = Some (PDict (d(''persistence'' := p1)))"
    and "np2 ''fbm'' = Some (PDict (d(''persistence'' := p2)))"
  shows "run_frames np1 ts w h ty g = run_frames np2 ts w h ty g"
proof (cases "ty = ''fbm''")
  case False
  then show ?thesis using assms(1)[of ty] by (simp add: run_frames_def)
next
  case True
  show ?thesis
    unfolding run_frames_visible True assms(2,3)
    using frames_loop_persistence[of
        "\<lparr>st_batch = zeros4 (length ts) 4 (h div 8) (w div 8),
          st_persistence = dict_get (d(''persistence'' := p1)) ''persistence'' 0.5,
          st_gen = g\<rparr>"
        "\<lparr>st_batch = zeros4 (length ts) 4 (h div 8) (w div 8),
          st_persistence = dict_get (d(''persistence'' := p2)) ''persistence'' 0.5,
          st_gen = g\<rparr>"]
    by (simp add: dict_get_def)
qed

text \<open>
  C9. Two mappings that differ only in the entry \<^verbatim>\<open>persistence\<close> of the sub-mapping
  \<^verbatim>\<open>fbm\<close> (bound to any value, or absent) give the same result: the same batch,
  timestamps and state of the random generator, or the same exception, for every noise
  type, size and state of the generator.
\<close>

theorem persistence_ignored:
  "snd (generate_advanced_noise (np(''fbm'' \<mapsto> PDict (d(''persistence'' := p1)))) w h ty an g)
     = snd (generate_advanced_noise (np(''fbm'' \<mapsto> PDict (d(''persistence'' := p2)))) w h ty an g)"
proof -
  let ?n1 = "np(''fbm'' \<mapsto> PDict (d(''persistence'' := p1)))"
  let ?n2 = "np(''fbm'' \<mapsto> PDict (d(''persistence'' := p2)))"
  let ?m1 = "snd (merge_defaults ?n1)"
  let ?m2 = "snd (merge_defaults ?n2)"
  have ne: "?n1 \<noteq> Map.empty" "?n2 \<noteq> Map.empty" by simp_all
  have other: "\<And>k. k \<noteq> ''fbm'' \<Longrightarrow> ?m1 k = ?m2 k"
    by (simp add: merge_defaults_nonempty[OF ne(1)] merge_defaults_nonempty[OF ne(2)])
  have f1: "?m1 ''fbm'' = Some (PDict (d(''persistence'' := p1)))"
    by (simp add: merge_defaults_nonempty[OF ne(1)])
  have f2: "?m2 ''fbm'' = Some (PDict (d(''persistence'' := p2)))"
    by (simp add: merge_defaults_nonempty[OF ne(2)])
  have rf: "\<And>ts. run_frames ?m1 ts w h ty g = run_frames ?m2 ts w h ty g"
    using other f1 f2 by (rule run_frames_persistence)
  have tsk: "?m1 ''timestamps'' = ?m2 ''timestamps''" using other by simp
  have tyk: "(case ?m1 ty of None \<Rightarrow> Inl KeyError | Some (PList l) \<Rightarrow> Inl AttributeError
               | Some (PDict bp) \<Rightarrow> Inl KeyError)
           = ((case ?m2 ty of None \<Rightarrow> Inl KeyError | Some (PList l) \<Rightarrow> Inl AttributeError
               | Some (PDict bp) \<Rightarrow> Inl KeyError) :: error + ((batch \<times> real list) \<times> rng))"
    using other[of ty] f1 f2 by (cases "ty = ''fbm''") simp_all
  show ?thesis
    unfolding generate_advanced_noise_def
    using tsk tyk rf
    by (simp add: split_beta Let_def split: option.splits pval.splits)
qed

subsection \<open>Randomness\<close>


lemma cellular_one_cell:
  "generate_cellular (1, 1) 1 c g =
     Inr ([[sin (sqrt ((g 0 * c)\<^sup>2 + (g 1 * c)\<^sup>2) * 0.2)
            * cos (sqrt ((g 0 * c * 1.5)\<^sup>2 + (g 1 * c * 0.8)\<^sup>2) * 0.15)]],
          \<lambda>k. g (k + 2))"
  by (simp add: generate_cellular_def torch_rand2_def seed_distances_def reshape2_def tzip_def
        place_seeds_def Let_def)

lemma sin_cos_pos:
  fixes a b :: real
  assumes "0 < a" "a \<le> 1" "0 \<le> b" "b \<le> 1"
  shows "0 < sin (a * 0.2) * cos (b * 0.15)"
proof -
  have "0 < sin (a * 0.2)"
    using assms(1,2) pi_ge_two by (intro sin_gt_zero) auto
  moreover have "0 < cos (b * 0.15)"
    using assms(3,4) pi_ge_two by (intro cos_gt_zero_pi) auto
  ultimately show ?thesis by (rule mult_pos_pos)
qed

lemma sqrt_unit: "0 \<le> x \<Longrightarrow> x \<le> 1 \<Longrightarrow> sqrt x \<le> 1"
  using real_sqrt_le_mono[of x 1] by simp

lemma cellular_two_calls:
  "\<exists>g0 f1 g1 f2 g2. generate_cellular (1, 1) 1 1 g0 = Inr (f1, g1)
      \<and> generate_cellular (1, 1) 1 1 g1 = Inr (f2, g2) \<and> f1 \<noteq> f2"
proof -
  define g0 :: rng where "g0 = (\<lambda>k. if k < 2 then 0 else 1 / 2)"
  define g1 :: rng where "g1 = (\<lambda>k. g0 (k + 2))"
  define v :: real where
    "v = sin (sqrt ((g1 0 * 1)\<^sup>2 + (g1 1 * 1)\<^sup>2) * 0.2)
            * cos (sqrt ((g1 0 * 1 * 1.5)\<^sup>2 + (g1 1 * 1 * 0.8)\<^sup>2) * 0.15)"
  have c1: "generate_cellular (1, 1) 1 1 g0 = Inr ([[0]], g1)"
    unfolding cellular_one_cell g1_def by (simp add: g0_def)
  have c2: "generate_cellular (1, 1) 1 1 g1 = Inr ([[v]], \<lambda>k. g1 (k + 2))"
    unfolding cellular_one_cell v_def by simp
  have a: "0 < sqrt ((g1 0 * 1)\<^sup>2 + (g1 1 * 1)\<^sup>2)"
    by (simp add: g1_def g0_def power2_eq_square)
  have b: "sqrt ((g1 0 * 1)\<^sup>2 + (g1 1 * 1)\<^sup>2) \<le> 1"
    by (rule sqrt_unit) (simp_all add: g1_def g0_def power2_eq_square)
  have c: "0 \<le> sqrt ((g1 0 * 1 * 1.5)\<^sup>2 + (g1 1 * 1 * 0.8)\<^sup>2)"
    by simp
  have d: "sqrt ((g1 0 * 1 * 1.5)\<^sup>2 + (g1 1 * 1 * 0.8)\<^sup>2) \<le> 1"
    by (rule sqrt_unit) (simp_all add: g1_def g0_def power2_eq_square)
  have "0 < v" unfolding v_def using a b c d by (rule sin_cos_pos)
  then have "[[0]] \<noteq> [[v]]" by simp
  with c1 c2 show ?thesis by blast
qed

text \<open>
  C7. The simplex, fbm, wave and domain-warp generators take no state of the random
  generator (the source draws no random number in them), and the dispatch that runs them
  returns one and the same field from every state of the generator and leaves that state
  as it was. The cellular generator reads the state: there is a state from which two
  calls in a row, with the same arguments, return different fields.
\<close>

theorem generators_determinism:
  "(\<exists>f p'. \<forall>g. dispatch ''simplex'' shape e c t p g = Inr (f, p', g))
   \<and> (\<exists>f p'. \<forall>g. dispatch ''fbm'' shape e c t p g = Inr (f, p', g))
   \<and> (\<exists>f p'. \<forall>g. dispatch ''wave'' shape e c t p g = Inr (f, p', g))
   \<and> (\<exists>f p'. \<forall>g. dispatch ''domain_warp'' shape e c t p g = Inr (f, p', g))
   \<and> (\<exists>g0 f1 g1 f2 g2. generate_cellular (1, 1) 1 1 g0 = Inr (f1, g1)
         \<and> generate_cellular (1, 1) 1 1 g1 = Inr (f2, g2) \<and> f1 \<noteq> f2)"
  using cellular_two_calls by (simp add: dispatch_def Let_def)

subsection \<open>The cellular generator, cell by cell\<close>

lemma zip_replicate_left: "zip (replicate (length ys) a) ys = map (Pair a) ys"
  by (induction ys) simp_all

lemma zip_concat_map:
  "(\<And>i. i \<in> set is \<Longrightarrow> length (f i) = length (h i)) \<Longrightarrow>
     zip (concat (map f is)) (concat (map h is)) = concat (map (\<lambda>i. zip (f i) (h i)) is)"
  by (induction "is") simp_all

lemma cell_coordinates:
  "zip (concat (map (\<lambda>i. replicate w (real i)) [0..<h]))
       (concat (replicate h (map real [0..<w])))
     = concat (map (\<lambda>i. map (\<lambda>j. (real i, real j)) [0..<w]) [0..<h])"
proof -
  have r: "replicate h (map real [0..<w]) = map (\<lambda>i. map real [0..<w]) [0..<h]"
    by (simp add: map_replicate_trivial)
  have z: "\<And>i. zip (replicate w (real i)) (map real [0..<w])
                 = map (\<lambda>j. (real i, real j)) [0..<w]"
    using zip_replicate_left[of "map real [0..<w]"] by (simp add: comp_def)
  show ?thesis
    unfolding r by (subst zip_concat_map) (simp_all add: z)
qed

lemma drop_concat_rows:
  "\<forall>r \<in> set rows. length r = w \<Longrightarrow> drop (i * w) (concat rows) = concat (drop i rows)"
proof (induction rows arbitrary: i)
  case Nil
  then show ?case by simp
next
  case (Cons r rows)
  show ?case
  proof (cases i)
    case 0
    then show ?thesis by simp
  next
    case (Suc k)
    then show ?thesis using Cons by simp
  qed
qed

lemma reshape2_concat:
  assumes "length rows = h" "\<forall>r \<in> set rows. length r = w"
  shows "reshape2 (h, w) (concat rows) = rows"
proof (rule nth_equalityI)
  show "length (reshape2 (h, w) (concat rows)) = length rows"
    using assms(1) by (simp add: reshape2_def)
next
  fix i assume "i < length (reshape2 (h, w) (concat rows))"
  then have i: "i < length rows" using assms(1) by (simp add: reshape2_def)
  then obtain r rest where d: "drop i rows = r # rest"
    by (cases "drop i rows") auto
  then have "r = rows ! i" using i by (metis nth_via_drop)
  moreover have "r \<in> set rows" using d by (metis in_set_dropD list.set_intros(1))
  then have "length r = w" using assms(2) by simp
  ultimately show "reshape2 (h, w) (concat rows) ! i = rows ! i"
    using i assms drop_concat_rows[OF assms(2), of i] d
    by (simp add: reshape2_def)
qed

lemma fold_min_Min:
  assumes "ds \<noteq> []"
  shows "fold min (tl ds) (hd ds) = Min (set ds)"
proof (cases ds)
  case Nil
  then show ?thesis using assms by simp
next
  case (Cons a l)
  then show ?thesis using Min.set_eq_fold[of a l] by simp
qed

lemma tzip_grids:
  "tzip f (map (\<lambda>i. map (a i) js) is) (map (\<lambda>i. map (b i) js) is)
     = map (\<lambda>i. map (\<lambda>j. f (a i j) (b i j)) js) is"
proof -
  have inner: "\<And>i. map2 f (map (a i) js) (map (b i) js) = map (\<lambda>j. f (a i j) (b i j)) js"
    by (induction js) simp_all
  show ?thesis
    by (induction "is") (simp_all add: tzip_def inner)
qed

lemma distance_field:
  assumes "points \<noteq> []"
  shows "reshape2 (h, w)
           (map (\<lambda>ds. fold min (tl ds) (hd ds))
              (seed_distances (concat (map (\<lambda>i. replicate w (real i)) [0..<h]))
                              (concat (replicate h (map real [0..<w]))) points sx sy))
         = map (\<lambda>i. map (\<lambda>j. nearest points sx sy (real i) (real j)) [0..<w]) [0..<h]"
proof -
  let ?d = "\<lambda>x y. map (\<lambda>p. sqrt ((x - fst p * sx)\<^sup>2 + (y - snd p * sy)\<^sup>2)) points"
  have m: "\<And>x y. fold min (tl (?d x y)) (hd (?d x y)) = nearest points sx sy x y"
    using assms by (subst fold_min_Min) (simp_all add: nearest_def)
  have "map (\<lambda>ds. fold min (tl ds) (hd ds))
              (seed_distances (concat (map (\<lambda>i. replicate w (real i)) [0..<h]))
                              (concat (replicate h (map real [0..<w]))) points sx sy)
        = concat (map (\<lambda>i. map (\<lambda>j. nearest points sx sy (real i) (real j)) [0..<w]) [0..<h])"
    unfolding seed_distances_def cell_coordinates
    by (simp add: map_concat comp_def m)
  then show ?thesis by (simp add: reshape2_concat)
qed

lemma generate_cellular_grid:
  assumes "0 < n"
  shows "generate_cellular shape (int n) c g =
     Inr (map (\<lambda>i. map (\<lambda>j.
                 sin (nearest (place_seeds shape c (fst (torch_rand2 n g))) 1 1 (real i) (real j) * 0.2)
                 * cos (nearest (place_seeds shape c (fst (torch_rand2 n g))) 1.5 0.8 (real i) (real j) * 0.15))
               [0..<snd shape]) [0..<fst shape],
          \<lambda>k. g (k + 2 * n))"
proof -
  have ne: "place_seeds shape c (fst (torch_rand2 n g)) \<noteq> []"
    using assms by (simp add: place_seeds_def torch_rand2_def)
  obtain h w where s: "shape = (h, w)" by (cases shape)
  show ?thesis
    using ne assms unfolding s generate_cellular_def
    by (simp add: Let_def split_beta distance_field tzip_grids)
       (simp add: torch_rand2_def)
qed

lemma cos_small_less_one:
  fixes b :: real
  assumes "0 < b" "b \<le> 1"
  shows "cos (b * 0.15) < 1"
proof -
  have "cos (b * 0.15) < cos 0"
    using assms pi_ge_two by (intro cos_monotone_0_pi) auto
  then show ?thesis by simp
qed

lemma nearest_single: "nearest [p] sx sy x y = sqrt ((x - fst p * sx)\<^sup>2 + (y - snd p * sy)\<^sup>2)"
  by (simp add: nearest_def)

text \<open>
  C4, amended. For every shape, every number \<open>n\<close> of seed points of at least one, every
  chaos factor and every state of the random generator, the cellular generator draws one
  set of \<open>n\<close> seeds and returns a field of the shape asked for whose cell \<open>(i, j)\<close> is
  \<open>sin (d1 * 0.2) * cos (d2 * 0.15)\<close>: \<open>d1\<close> is the distance from the cell to the nearest
  seed, and \<open>d2\<close> the distance to the nearest of the same seeds with their coordinates
  scaled by \<open>(1.5, 0.8)\<close>. The second seed set is a function of the first, not an
  independent draw.
\<close>

theorem cellular_same_seeds_scaled:
  assumes "0 < n" "i < fst shape" "j < snd shape"
  shows "\<exists>f. generate_cellular shape (int n) c g = Inr (f, \<lambda>k. g (k + 2 * n))
     \<and> map length f = replicate (fst shape) (snd shape)
     \<and> f ! i ! j =
         sin (nearest (place_seeds shape c (fst (torch_rand2 n g))) 1 1 (real i) (real j) * 0.2)
         * cos (nearest (place_seeds shape c (fst (torch_rand2 n g))) 1.5 0.8 (real i) (real j)
                * 0.15)"
  using assms(2,3)
  by (simp add: generate_cellular_grid[OF assms(1)] comp_def map_replicate_const)

theorem cellular_same_seeds_scaled_witness:
  "(0::nat) < 1 \<and> (0::nat) < fst (1::nat, 1::nat) \<and> (0::nat) < snd (1::nat, 1::nat)
   \<and> (\<exists>f. generate_cellular (1, 1) (int 1) 1 half_then_zero
              = Inr (f, \<lambda>k. half_then_zero (k + 2 * 1))
        \<and> map length f = replicate (fst (1::nat, 1::nat)) (snd (1::nat, 1::nat))
        \<and> f ! 0 ! 0 =
            sin (nearest (place_seeds (1, 1) 1 (fst (torch_rand2 1 half_then_zero))) 1 1
                   (real 0) (real 0) * 0.2)
            * cos (nearest (place_seeds (1, 1) 1 (fst (torch_rand2 1 half_then_zero))) 1.5 0.8
                     (real 0) (real 0) * 0.15))"
  using cellular_same_seeds_scaled[of 1 0 "(1, 1)" 0 1 half_then_zero] by simp

text \<open>
  C4 as stated fails: with two independent seed sets (two draws) the field differs from
  the one the generator returns, here on a field of one cell with one seed point; and with
  no seed point the generator raises.
\<close>

theorem cellular_sets_not_independent:
  "map_sum (\<lambda>e. e) fst (generate_cellular (1, 1) 1 1 half_then_zero)
     \<noteq> Inr (cellular_independent_sets (1, 1) 1 1 half_then_zero)
   \<and> generate_cellular (1, 1) 0 1 half_then_zero = Inl IndexError"
proof -
  define a :: real where "a = sqrt ((0 - 1/2 * 1 * 1 * 1)\<^sup>2 + (0 - 1/2 * 1 * 1 * 1)\<^sup>2)"
  define b :: real where "b = sqrt ((0 - 1/2 * 1 * 1 * 1.5)\<^sup>2 + (0 - 1/2 * 1 * 1 * 0.8)\<^sup>2)"
  have seeds1: "place_seeds (1, 1) 1 (fst (torch_rand2 1 half_then_zero)) = [(1/2 * 1 * 1, 1/2 * 1 * 1)]"
    by (simp add: place_seeds_def torch_rand2_def half_then_zero_def)
  have seeds2: "place_seeds (1, 1) 1 (fst (torch_rand2 1 (snd (torch_rand2 1 half_then_zero))))
                 = [(0 * 1 * 1, 0 * 1 * 1)]"
    by (simp add: place_seeds_def torch_rand2_def half_then_zero_def)
  have code: "map_sum (\<lambda>e. e) fst (generate_cellular (1, 1) 1 1 half_then_zero)
                = Inr [[sin (a * 0.2) * cos (b * 0.15)]]"
    using generate_cellular_grid[of 1 "(1, 1)" 1 half_then_zero]
    unfolding seeds1 nearest_single a_def b_def by simp
  have spec: "cellular_independent_sets (1, 1) 1 1 half_then_zero
                = [[sin (a * 0.2) * cos (0 * 0.15)]]"
    unfolding cellular_independent_sets_def Let_def seeds1 seeds2 nearest_single a_def
    by simp
  have apos: "0 < a" unfolding a_def by (simp add: power2_eq_square)
  have ale: "a \<le> 1" unfolding a_def by (rule sqrt_unit) (simp_all add: power2_eq_square)
  have bpos: "0 < b" unfolding b_def by (simp add: power2_eq_square)
  have ble: "b \<le> 1" unfolding b_def by (rule sqrt_unit) (simp_all add: power2_eq_square)
  have "0 < sin (a * 0.2)"
    using apos ale pi_ge_two by (intro sin_gt_zero) auto
  moreover have "cos (b * 0.15) < 1" using bpos ble by (rule cos_small_less_one)
  ultimately have "sin (a * 0.2) * cos (b * 0.15) \<noteq> sin (a * 0.2) * cos (0 * 0.15)"
    by simp
  then have "Inr [[sin (a * 0.2) * cos (b * 0.15)]]
               \<noteq> (Inr [[sin (a * 0.2) * cos (0 * 0.15)]] :: error + field)"
    by simp
  moreover have "generate_cellular (1, 1) 0 1 half_then_zero = Inl IndexError"
    by (simp add: generate_cellular_def torch_rand2_def place_seeds_def)
  ultimately show ?thesis unfolding code spec by simp
qed

subsection \<open>One pass of the loop body\<close>

lemma broadcastable_tmap: "broadcastable shape (tmap f v) = broadcastable shape v"
  by (cases v) (simp_all add: broadcastable_def tmap_def)

lemma broadcastable_channel_of:
  "broadcastable shape (channel_of e c k nf) = broadcastable shape nf"
  by (simp add: channel_of_def Let_def broadcastable_tmap)


lemma channel_loop_closed:
  "i < length nb \<Longrightarrow>
     channel_loop cs shape nf e c i nb =
       (if cs \<noteq> [] \<and> \<not> broadcastable shape nf then Inl RuntimeError
        else Inr (nb[i := fold (\<lambda>k fr. fr[k := expand shape (channel_of e c k nf)]) cs (nb ! i)]))"
proof (induction cs arbitrary: nb)
  case Nil
  then show ?case by simp
next
  case (Cons k cs)
  show ?case
  proof (cases "broadcastable shape nf")
    case False
    then show ?thesis by (simp add: broadcast_to_def broadcastable_channel_of)
  next
    case True
    have len: "i < length (nb[i := (nb ! i)[k := expand shape (channel_of e c k nf)]])"
      using Cons.prems by simp
    show ?thesis
      using True Cons.prems
      by (simp add: broadcast_to_def broadcastable_channel_of Cons.IH[OF len])
  qed
qed

lemma fold_update_four:
  assumes "length fr = 4"
  shows "fold (\<lambda>k fr. fr[k := F k]) [0..<4] fr = map F [0..<4]"
proof -
  obtain a b c d where fr: "fr = [a, b, c, d]"
    using assms by (auto simp: length_Suc_conv eval_nat_numeral)
  have u: "[0..<4] = [0, Suc 0, Suc (Suc 0), Suc (Suc (Suc 0))]"
    by (simp add: upt_rec eval_nat_numeral)
  show ?thesis unfolding u fr by simp
qed

lemma loop_body_closed:
  assumes "i < length (st_batch st)" "length (st_batch st ! i) = 4"
  shows "loop_body ty shape L intensity i t st =
     (case schedule t L intensity of
        Inl e \<Rightarrow> Inl e
      | Inr (time_scale, e, c) \<Rightarrow>
          (case dispatch ty shape e c t (st_persistence st) (st_gen st) of
             Inl err \<Rightarrow> Inl err
           | Inr (f, p', g') \<Rightarrow>
               (case minmax_normalize f of
                  Inl err \<Rightarrow> Inl err
                | Inr nf \<Rightarrow>
                    if broadcastable shape nf
                    then Inr \<lparr>st_batch = (st_batch st)
                                 [i := map (\<lambda>k. expand shape (channel_of e c k nf)) [0..<4]],
                              st_persistence = p', st_gen = g'\<rparr>
                    else Inl RuntimeError)))"
  unfolding loop_body_def
  by (simp add: channel_loop_closed[OF assms(1)] fold_update_four[OF assms(2)]
        split: sum.splits prod.splits)




subsection \<open>The shapes of the generated fields\<close>

















subsection \<open>The normalisation\<close>

lemma fold_max_Max:
  assumes "ds \<noteq> []"
  shows "fold max (tl ds) (hd ds) = Max (set ds)"
proof (cases ds)
  case Nil
  then show ?thesis using assms by simp
next
  case (Cons a l)
  then show ?thesis using Max.set_eq_fold[of a l] by simp
qed

lemma tmin_Min: "concat f \<noteq> [] \<Longrightarrow> tmin f = Min (set (concat f))"
  by (simp add: tmin_def fold_min_Min)

lemma tmax_Max: "concat f \<noteq> [] \<Longrightarrow> tmax f = Max (set (concat f))"
  by (simp add: tmax_def fold_max_Max)

lemma concat_tmap: "concat (tmap h f) = map h (concat f)"
  by (simp add: tmap_def map_concat)

lemma minmax_normalize_constant:
  assumes "concat f \<noteq> []" "tmax f = tmin f"
  shows "minmax_normalize f = Inr (tmap (\<lambda>v. NaN) f)"
  using assms by (simp add: minmax_normalize_def fdiv_def)

lemma minmax_normalize_spread:
  assumes "concat f \<noteq> []" "tmax f \<noteq> tmin f"
  shows "minmax_normalize f
           = Inr (tmap Fin (tmap (\<lambda>v. (v - tmin f) / (tmax f - tmin f)) f))"
    and "tmin (tmap (\<lambda>v. (v - tmin f) / (tmax f - tmin f)) f) = 0"
    and "tmax (tmap (\<lambda>v. (v - tmin f) / (tmax f - tmin f)) f) = 1"
proof -
  let ?S = "set (concat f)"
  let ?phi = "\<lambda>v. (v - tmin f) / (tmax f - tmin f)"
  have fin: "finite ?S" and ne: "?S \<noteq> {}" using assms(1) by simp_all
  obtain x where x: "x \<in> ?S" using ne by (meson ex_in_conv)
  have "Min ?S \<le> x" using fin x by (rule Min_le)
  moreover have "x \<le> Max ?S" using fin x by (rule Max_ge)
  ultimately have "Min ?S \<le> Max ?S" by (rule order_trans)
  then have lt: "tmin f < tmax f"
    using assms by (simp add: tmin_Min tmax_Max)
  have mono: "mono ?phi"
    using lt by (intro monoI divide_right_mono) simp_all
  show "minmax_normalize f = Inr (tmap Fin (tmap ?phi f))"
    using assms lt by (simp add: minmax_normalize_def fdiv_def tmap_def comp_def)
  have c: "concat (tmap ?phi f) \<noteq> []" using assms(1) by (simp add: concat_tmap)
  have "tmin (tmap ?phi f) = Min (?phi ` ?S)"
    by (simp add: tmin_Min[OF c] concat_tmap)
  also have "\<dots> = ?phi (Min ?S)"
    using mono_Min_commute[OF mono fin ne] by simp
  also have "\<dots> = 0" by (simp add: tmin_Min[OF assms(1)])
  finally show "tmin (tmap ?phi f) = 0" .
  have "tmax (tmap ?phi f) = Max (?phi ` ?S)"
    by (simp add: tmax_Max[OF c] concat_tmap)
  also have "\<dots> = ?phi (Max ?S)"
    using mono_Max_commute[OF mono fin ne] by simp
  also have "\<dots> = 1" using lt by (simp add: tmax_Max[OF assms(1)])
  finally show "tmax (tmap ?phi f) = 1" .
qed

lemma minmax_normalize_cases:
  assumes "minmax_normalize f = Inr nf"
  shows "concat f \<noteq> []"
    and "map length nf = map length f"
    and "tmax f = tmin f \<Longrightarrow> nf = tmap (\<lambda>v. NaN) f"
    and "tmax f \<noteq> tmin f \<Longrightarrow> \<exists>n. nf = tmap Fin n"
proof -
  show c: "concat f \<noteq> []"
    using assms by (auto simp: minmax_normalize_def split: if_splits)
  show "map length nf = map length f"
    using assms by (auto simp: minmax_normalize_def tmap_def split: if_splits)
  show "tmax f = tmin f \<Longrightarrow> nf = tmap (\<lambda>v. NaN) f"
    using assms minmax_normalize_constant[OF c] by simp
  show "tmax f \<noteq> tmin f \<Longrightarrow> \<exists>n. nf = tmap Fin n"
    using assms minmax_normalize_spread(1)[OF c] by auto
qed

subsection \<open>The frame of one timestamp\<close>








lemma schedule_returns:
  "L \<noteq> 0 \<Longrightarrow> 0 \<le> t / L \<Longrightarrow>
     schedule t L intensity
       = Inr ((t / L) powr 0.3, intensity * (1 + exp ((t / L) powr 0.3 * 2) - 1),
              0.5 + \<bar>sin (t * 10)\<bar> * 2)"
  by (simp add: schedule_def Let_def)



subsection \<open>The loop over the timestamps, frame by frame\<close>




subsection \<open>The entry point, frame by frame\<close>

lemma gan_nonempty_timestamps:
  assumes "noise_params ''timestamps'' = Some (PList ts)" "ts \<noteq> []"
  shows "snd (generate_advanced_noise noise_params w h ty an g)
           = run_frames (snd (merge_defaults noise_params)) ts w h ty g"
proof -
  have ne: "noise_params \<noteq> Map.empty" using assms(1) by auto
  show ?thesis
    using assms
    by (simp add: generate_advanced_noise_def merge_defaults_nonempty[OF ne])
qed













subsection \<open>Constant fields\<close>













subsection \<open>A wave field on a slot that is not square\<close>

text \<open>
  With a width of 128 and a height of 64 the slot of a channel has 8 rows and 16 columns,
  the wave field 16 rows and 8 columns, and the assignment to the slot raises.
\<close>

lemma wave_not_square_raises:
  "snd (generate_advanced_noise [''timestamps'' \<mapsto> PList [1]] 128 64 ''wave'' [] (\<lambda>k. 0))
     = Inl RuntimeError"
proof -
  let ?np = "[''timestamps'' \<mapsto> PList [1]]"
  let ?st = "\<lparr>st_batch = zeros4 1 4 8 16, st_persistence = 1 / 2, st_gen = \<lambda>k. 0\<rparr>"
  define e :: real where "e = 1 * (1 + exp ((1 / 1) powr 0.3 * 2) - 1)"
  define c :: real where "c = 0.5 + \<bar>sin (1 * 10)\<bar> * 2"
  define f where "f = generate_wave (8, 16) (0.3 + e * 12) (1 * 8 * pi * c, 1 * 6 * pi * (2 - c))"
  have ne: "?np \<noteq> Map.empty" by simp
  have m: "snd (merge_defaults ?np) ''wave'' = Some (PDict [''intensity'' \<mapsto> 1])"
    by (simp add: merge_defaults_nonempty[OF ne] default_keys_def default_noise_params_def)
  have s: "schedule 1 1 1 = Inr ((1 / 1) powr 0.3, e, c)"
    unfolding e_def c_def by (rule schedule_returns) simp_all
  have d: "dispatch ''wave'' (8, 16) e c 1 (1 / 2) (\<lambda>k. 0) = Inr (f, 1 / 2, \<lambda>k. 0)"
    by (simp add: dispatch_def Let_def f_def)
  have sh: "map length f = replicate 16 8"
    unfolding f_def by (simp add: shape_generate_wave)
  then obtain r rest where fr: "f = r # rest" by (cases f) auto
  then have "length r = 8" using sh by (simp add: eval_nat_numeral)
  then have c0: "concat f \<noteq> []" using fr by auto
  then obtain nf where n: "minmax_normalize f = Inr nf"
    by (simp add: minmax_normalize_def)
  have nsh: "map length nf = replicate 16 8"
    using minmax_normalize_cases(2)[OF n] sh by simp
  have "length nf = 16" using arg_cong[OF nsh, of length] by simp
  then have nb: "\<not> broadcastable (8, 16) nf" by (simp add: broadcastable_def)
  have i: "0 < length (st_batch ?st)" and four: "length (st_batch ?st ! 0) = 4"
    by (simp_all add: zeros4_def)
  have lb: "loop_body ''wave'' (8, 16) 1 1 0 1 ?st = Inl RuntimeError"
    unfolding loop_body_closed[OF i four] using s d n nb by simp
  have z: "zip [0..<length [1::real]] [1::real] = [(0, 1)]" by simp
  have rf: "run_frames (snd (merge_defaults ?np)) [1] 128 64 ''wave'' (\<lambda>k. 0)
              = Inl RuntimeError"
    unfolding run_frames_def m Let_def z
    using lb by (simp add: dict_get_def)
  have "snd (generate_advanced_noise ?np 128 64 ''wave'' [] (\<lambda>k. 0))
          = run_frames (snd (merge_defaults ?np)) [1] 128 64 ''wave'' (\<lambda>k. 0)"
    by (rule gan_nonempty_timestamps[where noise_params = ?np]) simp_all
  then show ?thesis using rf by simp
qed

end
